theory Spec2Isabelle
  imports Complex_Main "HOL-Library.Word"
begin

section \<open>The ImgBB client of \<^verbatim>\<open>src/index.ts\<close>\<close>

text \<open>
  The module keeps three credentials in module-level variables, builds multipart form
  bodies and sends one POST per operation through the platform's \<^verbatim>\<open>fetch\<close>.
  The model passes the module state explicitly and records every invocation of the
  transport in the state, so that "no network call" is a statement about that record.
  A JavaScript string is a \<open>string\<close> whose characters stand for code units (the model covers
  the strings whose code units are below 256); \<^verbatim>\<open>undefined\<close> is \<open>None\<close>.
\<close>

subsection \<open>Platform values\<close>

text \<open>The value that \<^verbatim>\<open>resp.json()\<close> resolves to. An object holds its own properties.\<close>

datatype json =
    JNull
  | JBool bool
  | JNum real
  | JStr string
  | JArr "json list"
  | JObj "(string \<times> json) list"

text \<open>What an operation can throw (every one is asynchronous, so: reject with).\<close>

datatype error =
    Error string         \<comment> \<open>\<^verbatim>\<open>new Error(message)\<close>\<close>
  | TypeError string     \<comment> \<open>\<^verbatim>\<open>new TypeError(message)\<close>\<close>
  | SyntaxError          \<comment> \<open>\<^verbatim>\<open>resp.json()\<close> on a body that is not JSON\<close>
  | FetchFailed string   \<comment> \<open>the transport itself rejects\<close>

text \<open>
  An entry of a \<^verbatim>\<open>FormData\<close>: a string, or a blob with the file name argument that
  \<^verbatim>\<open>set\<close> was given. The blob type \<open>'b\<close> is the platform's.
\<close>

datatype 'b form_value = FString string | FFile 'b "string option"

type_synonym 'b formdata = "(string \<times> 'b form_value) list"

text \<open>
  \<^verbatim>\<open>FormData.set(name, value)\<close>: when entries named \<open>name\<close> exist, the first is replaced
  and the others are removed; otherwise the entry is appended.
\<close>

fun fd_set :: "string \<Rightarrow> 'v \<Rightarrow> (string \<times> 'v) list \<Rightarrow> (string \<times> 'v) list" where
  "fd_set n v [] = [(n, v)]"
| "fd_set n v ((k, w) # es) =
     (if k = n then (n, v) # filter (\<lambda>e. fst e \<noteq> n) es else (k, w) # fd_set n v es)"

text \<open>\<^verbatim>\<open>FormData.getAll(name)\<close>: the values of the entries named \<open>name\<close>, in order.\<close>

definition fd_getAll :: "string \<Rightarrow> (string \<times> 'v) list \<Rightarrow> 'v list" where
  "fd_getAll n es = map snd (filter (\<lambda>e. fst e = n) es)"

text \<open>The request that \<^verbatim>\<open>fetch(url, {method, body, headers: {cookie, origin}})\<close> is given.\<close>

record 'b request =
  req_url :: string
  req_method :: string
  req_body :: "'b formdata"
  req_cookie :: string
  req_origin :: string

text \<open>
  A \<^verbatim>\<open>Response\<close>: its status, and what \<^verbatim>\<open>resp.json()\<close> gives (\<open>None\<close> when the body is
  missing or is not JSON: the promise rejects with a \<^verbatim>\<open>SyntaxError\<close>).
\<close>

record response =
  resp_status :: nat
  resp_json :: "json option"

text \<open>\<^verbatim>\<open>resp.ok\<close> is true exactly for a status from 200 to 299.\<close>

definition ok :: "response \<Rightarrow> bool" where
  "ok r = (200 \<le> resp_status r \<and> resp_status r \<le> 299)"

text \<open>
  The collaborators of the module: the transport, the MIME lookup of the \<^verbatim>\<open>mime\<close> package
  (\<open>None\<close> for \<^verbatim>\<open>null\<close>), the \<^verbatim>\<open>Blob\<close> constructor, the clock, and the conversion of a JSON
  value that is not a string to a string.
\<close>

record 'b env =
  fetch :: "'b request \<Rightarrow> error + response"
  getType :: "string \<Rightarrow> string option"
  newBlob :: "8 word list \<Rightarrow> string option \<Rightarrow> 'b"
  now :: nat
  toString :: "json \<Rightarrow> string"

subsection \<open>JavaScript operators on these values\<close>

text \<open>A string or \<^verbatim>\<open>undefined\<close> is falsy when it is \<^verbatim>\<open>undefined\<close> or empty.\<close>

definition falsy :: "string option \<Rightarrow> bool" where
  "falsy v = (case v of None \<Rightarrow> True | Some s \<Rightarrow> s = [])"

text \<open>\<^verbatim>\<open>a || b\<close> on two such values.\<close>

definition or_else :: "string option \<Rightarrow> string option \<Rightarrow> string option" where
  "or_else a b = (if falsy a then b else a)"

text \<open>A string or \<^verbatim>\<open>undefined\<close> converted to a string (template literal, form field).\<close>

definition to_str :: "string option \<Rightarrow> string" where
  "to_str v = (case v of None \<Rightarrow> ''undefined'' | Some s \<Rightarrow> s)"

text \<open>The decimal digits of a non-negative integer (\<^verbatim>\<open>Number.prototype.toString\<close>).\<close>

definition digit :: "nat \<Rightarrow> char" where
  "digit d = ''0123456789'' ! d"

function decimal :: "nat \<Rightarrow> string" where
  "decimal n = (if n < 10 then [digit n] else decimal (n div 10) @ [digit (n mod 10)])"
  by pat_completeness auto
termination
  by (relation "measure (\<lambda>n. n)") auto

declare decimal.simps [simp del]

text \<open>
  Reading the property \<open>k\<close> of a parsed value, for the two names the module reads
  (\<^verbatim>\<open>error\<close> and \<^verbatim>\<open>message\<close>): only an object can have them.
\<close>

fun get_prop :: "json \<Rightarrow> string \<Rightarrow> json option" where
  "get_prop (JObj ps) k = map_of ps k"
| "get_prop _ k = None"

text \<open>\<^verbatim>\<open>v?.k\<close>: \<^verbatim>\<open>undefined\<close> when \<open>v\<close> is \<^verbatim>\<open>undefined\<close> or \<^verbatim>\<open>null\<close>.\<close>

fun opt_chain :: "json option \<Rightarrow> string \<Rightarrow> json option" where
  "opt_chain None k = None"
| "opt_chain (Some JNull) k = None"
| "opt_chain (Some v) k = get_prop v k"

text \<open>Truthiness of a parsed value (parsing JSON gives no \<^verbatim>\<open>NaN\<close>).\<close>

fun truthy :: "json option \<Rightarrow> bool" where
  "truthy None = False"
| "truthy (Some JNull) = False"
| "truthy (Some (JBool b)) = b"
| "truthy (Some (JNum x)) = (x \<noteq> 0)"
| "truthy (Some (JStr s)) = (s \<noteq> [])"
| "truthy (Some (JArr xs)) = True"
| "truthy (Some (JObj ps)) = True"

subsection \<open>Module state and configuration\<close>

record 'b state =
  IMGBB_KEY :: "string option"
  IMGBB_COOKIE :: "string option"
  IMGBB_USERNAME :: "string option"
  calls :: "'b request list"   \<comment> \<open>the requests the transport was invoked with, oldest first\<close>

definition host :: string where
  "host = ''imgbb.com''"

definition website :: string where
  "website = ''https://'' @ host"

definition endpoint :: string where
  "endpoint = ''/json''"

text \<open>The fields of \<^verbatim>\<open>ApiConfig\<close>, \<^verbatim>\<open>ApiOptions\<close> and \<^verbatim>\<open>ImageUploadOptions\<close> carry a prefix.\<close>

record ApiConfig =
  cfg_key :: "string option"
  cfg_cookie :: "string option"
  cfg_username :: "string option"

record 'b ApiOptions =
  ao_body :: "'b formdata"
  ao_username :: "string option"
  ao_cookie :: "string option"
  ao_origin :: "string option"
  ao_endpoint :: "string option"
  ao_endpointUseOrigin :: "bool option"

definition config :: "ApiConfig \<Rightarrow> 'b state \<Rightarrow> 'b state" where
  "config c s = s\<lparr>IMGBB_KEY := cfg_key c, IMGBB_COOKIE := cfg_cookie c,
                  IMGBB_USERNAME := cfg_username c\<rparr>"

definition ensureCreds :: "'b state \<Rightarrow> error + unit" where
  "ensureCreds s =
     (if falsy (IMGBB_KEY s) \<or> falsy (IMGBB_COOKIE s) \<or> falsy (IMGBB_USERNAME s)
      then Inl (Error ''ImgBB credentials not configured, please use config()'')
      else Inr ())"

subsection \<open>The authenticated request\<close>

definition origin_of :: "'b ApiOptions \<Rightarrow> 'b state \<Rightarrow> string" where
  "origin_of opts s =
     to_str (or_else (ao_origin opts)
       (Some (''https://'' @ to_str (or_else (ao_username opts) (IMGBB_USERNAME s))
              @ ''.'' @ host)))"

text \<open>The arguments of the call of \<^verbatim>\<open>fetch\<close>.\<close>

definition request_of :: "'b ApiOptions \<Rightarrow> 'b state \<Rightarrow> 'b request" where
  "request_of opts s =
     \<lparr>req_url = to_str (or_else (ao_endpoint opts)
          (Some ((if ao_endpointUseOrigin opts = Some True then origin_of opts s else website)
                 @ endpoint))),
      req_method = ''POST'',
      req_body = ao_body opts,
      req_cookie = to_str (or_else (ao_cookie opts) (IMGBB_COOKIE s)),
      req_origin = origin_of opts s\<rparr>"

text \<open>The message of the error thrown for a response that is not \<^verbatim>\<open>ok\<close>, from its parsed body.\<close>

definition error_message :: "'b env \<Rightarrow> response \<Rightarrow> json \<Rightarrow> string" where
  "error_message e r d =
     ''response status '' @ decimal (resp_status r) @ '': '' @
     (let m = opt_chain (opt_chain (Some d) ''error'') ''message''
      in if truthy m
         then (case m of Some (JStr t) \<Rightarrow> t | Some v \<Rightarrow> toString e v | None \<Rightarrow> ''undefined'')
         else ''no error message provided'')"

definition apiRequest :: "'b env \<Rightarrow> 'b ApiOptions \<Rightarrow> 'b state \<Rightarrow> (error + response) \<times> 'b state" where
  "apiRequest e opts s =
     (case ensureCreds s of
        Inl err \<Rightarrow> (Inl err, s)
      | Inr _ \<Rightarrow>
          let req = request_of opts s;
              s' = s\<lparr>calls := calls s @ [req]\<rparr>
          in (case fetch e req of
                Inl err \<Rightarrow> (Inl err, s')
              | Inr resp \<Rightarrow>
                  if \<not> ok resp
                  then (case resp_json resp of
                          None \<Rightarrow> (Inl SyntaxError, s')
                        | Some d \<Rightarrow> (Inl (Error (error_message e resp d)), s'))
                  else (Inr resp, s')))"

subsection \<open>Deleting images\<close>

text \<open>The argument of \<^verbatim>\<open>removeImages\<close>: \<^verbatim>\<open>string[] | string\<close>.\<close>

datatype id_arg = IdStr string | IdList "string list"

text \<open>\<^verbatim>\<open>id.length\<close>, of the string or of the array.\<close>

fun id_length :: "id_arg \<Rightarrow> nat" where
  "id_length (IdStr i) = length i"
| "id_length (IdList ids) = length ids"

text \<open>The form body that \<^verbatim>\<open>removeImages\<close> builds; the loop over the array is a fold.\<close>

definition delete_body :: "id_arg \<Rightarrow> 'b state \<Rightarrow> 'b formdata" where
  "delete_body ia s =
     (let b0 = fd_set ''action'' (FString ''delete'') [];
          b1 = fd_set ''auth_token'' (FString (to_str (IMGBB_KEY s))) b0
      in case ia of
           IdStr i \<Rightarrow>
             fd_set ''deleting[id]'' (FString i)
               (fd_set ''delete'' (FString ''image'')
                 (fd_set ''single'' (FString ''true'') b1))
         | IdList ids \<Rightarrow>
             foldl (\<lambda>b i. fd_set ''deleting[ids][]'' (FString i) b)
               (fd_set ''delete'' (FString ''images'')
                 (fd_set ''multiple'' (FString ''true'')
                   (fd_set ''from'' (FString ''list'') b1)))
               ids)"

definition delete_options :: "id_arg \<Rightarrow> 'b state \<Rightarrow> 'b ApiOptions" where
  "delete_options ia s =
     \<lparr>ao_body = delete_body ia s, ao_username = None, ao_cookie = None, ao_origin = None,
      ao_endpoint = None, ao_endpointUseOrigin = Some True\<rparr>"

text \<open>The result is \<open>None\<close> for \<^verbatim>\<open>undefined\<close>, else the parsed body of the response.\<close>

definition removeImages :: "'b env \<Rightarrow> id_arg \<Rightarrow> 'b state \<Rightarrow> (error + json option) \<times> 'b state" where
  "removeImages e ia s =
     (case ensureCreds s of
        Inl err \<Rightarrow> (Inl err, s)
      | Inr _ \<Rightarrow>
          if id_length ia = 0 then (Inr None, s)
          else (case apiRequest e (delete_options ia s) s of
                  (Inl err, s') \<Rightarrow> (Inl err, s')
                | (Inr resp, s') \<Rightarrow>
                    (case resp_json resp of
                       None \<Rightarrow> (Inl SyntaxError, s')
                     | Some d \<Rightarrow> (Inr (Some d), s'))))"

subsection \<open>Uploading an image\<close>

datatype ImageUploadExpiration = OneHour | SixMonths | Never

text \<open>The string that each member of the enum is.\<close>

fun expiration_value :: "ImageUploadExpiration \<Rightarrow> string" where
  "expiration_value OneHour = ''PT1H''"
| "expiration_value SixMonths = ''P6M''"
| "expiration_value Never = ''''"

text \<open>\<^verbatim>\<open>Blob | Buffer\<close>.\<close>

datatype 'b image = ImgBlob 'b | ImgBuffer "8 word list"

text \<open>
  An optional property of the options object: the key is absent, or it is present with a
  value that may be \<^verbatim>\<open>undefined\<close>. The spread \<^verbatim>\<open>{...defaults, ...opts}\<close> keeps a default
  only where the key is absent.
\<close>

datatype 'a field = Absent | Present "'a option"

fun overlay :: "'a option \<Rightarrow> 'a field \<Rightarrow> 'a option" where
  "overlay d Absent = d"
| "overlay d (Present v) = v"

record 'b ImageUploadOptions =
  iu_image :: "'b image"
  iu_username :: "string field"
  iu_expiration :: "ImageUploadExpiration field"
  iu_album :: "string field"
  iu_name :: "string field"

text \<open>
  The form body that \<^verbatim>\<open>uploadImage\<close> builds. Both branches of the conditional give a
  \<^verbatim>\<open>Blob\<close>, so the \<^verbatim>\<open>TypeError\<close> that guards it is never thrown. The \<^verbatim>\<open>username\<close> of the
  options is given a default and then not read.
\<close>

definition upload_body :: "'b env \<Rightarrow> 'b ImageUploadOptions \<Rightarrow> 'b state \<Rightarrow> 'b formdata" where
  "upload_body e opts s =
     (let expiration = overlay (Some SixMonths) (iu_expiration opts);
          name = overlay (Some ''image.png'') (iu_name opts);
          album = overlay None (iu_album opts);
          type = or_else (getType e (to_str (or_else name (Some '''')))) None;
          blob = (case iu_image opts of ImgBlob b \<Rightarrow> b | ImgBuffer buf \<Rightarrow> newBlob e buf type);
          b1 = fd_set ''action'' (FString ''upload'') [];
          b2 = fd_set ''album_id'' (FString (to_str (or_else album (Some '''')))) b1;
          b3 = fd_set ''auth_token'' (FString (to_str (IMGBB_KEY s))) b2;
          b4 = fd_set ''expiration''
                 (FString (to_str (or_else (map_option expiration_value expiration) (Some '''')))) b3;
          b5 = fd_set ''source'' (FFile blob name) b4;
          b6 = fd_set ''timestamp'' (FString (decimal (now e))) b5
      in fd_set ''type'' (FString ''file'') b6)"

definition upload_options :: "'b env \<Rightarrow> 'b ImageUploadOptions \<Rightarrow> 'b state \<Rightarrow> 'b ApiOptions" where
  "upload_options e opts s =
     \<lparr>ao_body = upload_body e opts s, ao_username = None, ao_cookie = None, ao_origin = None,
      ao_endpoint = None, ao_endpointUseOrigin = None\<rparr>"

definition uploadImage :: "'b env \<Rightarrow> 'b ImageUploadOptions \<Rightarrow> 'b state \<Rightarrow> (error + json) \<times> 'b state" where
  "uploadImage e opts s =
     (case ensureCreds s of
        Inl err \<Rightarrow> (Inl err, s)
      | Inr _ \<Rightarrow>
          (case apiRequest e (upload_options e opts s) s of
             (Inl err, s') \<Rightarrow> (Inl err, s')
           | (Inr resp, s') \<Rightarrow>
               (case resp_json resp of
                  None \<Rightarrow> (Inl SyntaxError, s')
                | Some d \<Rightarrow> (Inr d, s'))))"

subsection \<open>Extracting an image identifier\<close>

text \<open>
  The regular expression \<^verbatim>\<open>/^https?:\/\/i.ibb.co\/(\w+)\//i\<close> is a sequence of these atoms,
  matched from the start of the string by a backtracking matcher: a character of the
  pattern, \<^verbatim>\<open>.\<close>, a character followed by \<^verbatim>\<open>?\<close>, and the group \<^verbatim>\<open>(\w+)\<close>.
\<close>

datatype atom = Chr char | Dot | Opt char | WordGroup

definition cdn_regex :: "atom list" where
  "cdn_regex = map Chr ''http'' @ [Opt CHR ''s''] @ map Chr ''://i'' @ [Dot] @ map Chr ''ibb''
     @ [Dot] @ map Chr ''co/'' @ [WordGroup, Chr CHR ''/'']"

text \<open>
  Under the flag \<^verbatim>\<open>i\<close> (without \<^verbatim>\<open>u\<close>) a letter of the pattern matches its two cases and no
  other code unit; \<open>upper\<close> is the canonical form of an ASCII character.
\<close>

definition upper :: "char \<Rightarrow> char" where
  "upper c = (case map_of (zip ''abcdefghijklmnopqrstuvwxyz'' ''ABCDEFGHIJKLMNOPQRSTUVWXYZ'') c of
                Some u \<Rightarrow> u | None \<Rightarrow> c)"

definition ci_eq :: "char \<Rightarrow> char \<Rightarrow> bool" where
  "ci_eq p c = (upper p = upper c)"

text \<open>\<^verbatim>\<open>.\<close> matches any code unit but a line terminator (line feed and carriage return here).\<close>

definition line_terminator :: "char \<Rightarrow> bool" where
  "line_terminator c = (c = CHR 0x0A \<or> c = CHR 0x0D)"

text \<open>\<^verbatim>\<open>\w\<close>: a letter, a digit or the underscore.\<close>

definition word_char :: "char \<Rightarrow> bool" where
  "word_char c =
     (c \<in> set ''abcdefghijklmnopqrstuvwxyzABCDEFGHIJKLMNOPQRSTUVWXYZ0123456789_'')"

text \<open>
  \<open>rmatch ps s\<close> matches the atoms \<open>ps\<close> against a prefix of \<open>s\<close>: \<open>None\<close> when there is no
  match, else the text of group 1 (\<open>None\<close> when the group took no part). Quantifiers are
  greedy: the longer alternative is tried first, the shorter one when the rest fails.
\<close>

fun rmatch :: "atom list \<Rightarrow> string \<Rightarrow> string option option"
  and wplus :: "atom list \<Rightarrow> string \<Rightarrow> string \<Rightarrow> string option option" where
  "rmatch [] s = Some None"
| "rmatch (Chr p # ps) [] = None"
| "rmatch (Chr p # ps) (c # cs) = (if ci_eq p c then rmatch ps cs else None)"
| "rmatch (Dot # ps) [] = None"
| "rmatch (Dot # ps) (c # cs) = (if line_terminator c then None else rmatch ps cs)"
| "rmatch (Opt p # ps) [] = rmatch ps []"
| "rmatch (Opt p # ps) (c # cs) =
     (case (if ci_eq p c then rmatch ps cs else None) of
        Some r \<Rightarrow> Some r
      | None \<Rightarrow> rmatch ps (c # cs))"
| "rmatch (WordGroup # ps) s = wplus ps [] s"
| "wplus ps acc [] = None"
| "wplus ps acc (c # cs) =
     (if word_char c
      then (case wplus ps (acc @ [c]) cs of
              Some r \<Rightarrow> Some r
            | None \<Rightarrow> (case rmatch ps cs of Some _ \<Rightarrow> Some (Some (acc @ [c])) | None \<Rightarrow> None))
      else None)"

text \<open>The argument: a string, or a \<^verbatim>\<open>User\<close> object, of which only \<^verbatim>\<open>image\<close> is read.\<close>

datatype url_or_user = Url string | User "string option"

text \<open>The result is \<open>None\<close> for \<^verbatim>\<open>null\<close>.\<close>

definition getImageIdByUrl :: "url_or_user \<Rightarrow> string option" where
  "getImageIdByUrl urlOrUser =
     (let url = (case urlOrUser of Url u \<Rightarrow> Some u | User img \<Rightarrow> img)
      in if falsy url then None
         else (case rmatch cdn_regex (to_str url) of
                 None \<Rightarrow> None
               | Some g \<Rightarrow> or_else g None))"

subsection \<open>Concrete inputs\<close>

text \<open>A configured module, one without a key, and a transport that answers every request alike.\<close>

definition configured_state :: "8 word list state" where
  "configured_state = \<lparr>IMGBB_KEY = Some ''k3y'', IMGBB_COOKIE = Some ''sid=1'',
     IMGBB_USERNAME = Some ''bob'', calls = []\<rparr>"

definition keyless_state :: "8 word list state" where
  "keyless_state = \<lparr>IMGBB_KEY = None, IMGBB_COOKIE = Some ''sid=1'',
     IMGBB_USERNAME = Some ''bob'', calls = []\<rparr>"

definition transport_env :: "response \<Rightarrow> 8 word list env" where
  "transport_env r = \<lparr>fetch = (\<lambda>req. Inr r), getType = (\<lambda>n. None),
     newBlob = (\<lambda>buf ty. buf), now = 1700000000000, toString = (\<lambda>v. ''[object Object]'')\<rparr>"

definition bad_token_response :: response where
  "bad_token_response = \<lparr>resp_status = 400,
     resp_json = Some (JObj [(''error'', JObj [(''message'', JStr ''bad token'')])])\<rparr>"

definition not_json_response :: response where
  "not_json_response = \<lparr>resp_status = 400, resp_json = None\<rparr>"

definition plain_options :: "8 word list ApiOptions" where
  "plain_options = \<lparr>ao_body = [], ao_username = None, ao_cookie = None, ao_origin = None,
     ao_endpoint = None, ao_endpointUseOrigin = None\<rparr>"

definition upload_with :: "ImageUploadExpiration field \<Rightarrow> 8 word list ImageUploadOptions" where
  "upload_with x = \<lparr>iu_image = ImgBuffer [], iu_username = Absent, iu_expiration = x,
     iu_album = Absent, iu_name = Absent\<rparr>"

section \<open>Properties\<close>

subsection \<open>The credential check and the transport record\<close>

lemma ensureCreds_ok:
  "\<not> falsy (IMGBB_KEY s) \<Longrightarrow> \<not> falsy (IMGBB_COOKIE s) \<Longrightarrow> \<not> falsy (IMGBB_USERNAME s)
   \<Longrightarrow> ensureCreds s = Inr ()"
  by (simp add: ensureCreds_def)

lemma ensureCreds_fails:
  "falsy (IMGBB_KEY s) \<or> falsy (IMGBB_COOKIE s) \<or> falsy (IMGBB_USERNAME s)
   \<Longrightarrow> ensureCreds s = Inl (Error ''ImgBB credentials not configured, please use config()'')"
  by (simp add: ensureCreds_def)

lemma apiRequest_state:
  "ensureCreds s = Inr () \<Longrightarrow>
   snd (apiRequest e ao s) = s\<lparr>calls := calls s @ [request_of ao s]\<rparr>"
  by (simp add: apiRequest_def Let_def split: sum.splits option.splits)

lemma apiRequest_value:
  "ensureCreds s = Inr () \<Longrightarrow>
   fst (apiRequest e ao s) =
     (case fetch e (request_of ao s) of
        Inl err \<Rightarrow> Inl err
      | Inr resp \<Rightarrow>
          if ok resp then Inr resp
          else (case resp_json resp of
                  None \<Rightarrow> Inl SyntaxError
                | Some d \<Rightarrow> Inl (Error (error_message e resp d))))"
  by (simp add: apiRequest_def Let_def split: sum.splits option.splits)

lemma uploadImage_state:
  "ensureCreds s = Inr () \<Longrightarrow>
   snd (uploadImage e opts s) = s\<lparr>calls := calls s @ [request_of (upload_options e opts s) s]\<rparr>"
  using apiRequest_state [of s e "upload_options e opts s"]
  by (auto simp: uploadImage_def split: sum.splits option.splits prod.splits)

lemma removeImages_state:
  "ensureCreds s = Inr () \<Longrightarrow> id_length ia \<noteq> 0 \<Longrightarrow>
   snd (removeImages e ia s) = s\<lparr>calls := calls s @ [request_of (delete_options ia s) s]\<rparr>"
  using apiRequest_state [of s e "delete_options ia s"]
  by (auto simp: removeImages_def split: sum.splits option.splits prod.splits)

lemma uploadImage_error:
  "ensureCreds s = Inr () \<Longrightarrow> fst (apiRequest e (upload_options e opts s) s) = Inl err \<Longrightarrow>
   fst (uploadImage e opts s) = Inl err"
  by (auto simp: uploadImage_def split: sum.splits option.splits prod.splits)

lemma removeImages_error:
  "ensureCreds s = Inr () \<Longrightarrow> id_length ia \<noteq> 0 \<Longrightarrow>
   fst (apiRequest e (delete_options ia s) s) = Inl err \<Longrightarrow>
   fst (removeImages e ia s) = Inl err"
  by (auto simp: removeImages_def split: sum.splits option.splits prod.splits)

lemmas regex_defs = getImageIdByUrl_def cdn_regex_def falsy_def to_str_def or_else_def
  ci_eq_def upper_def word_char_def line_terminator_def

subsection \<open>Configuration\<close>

text \<open>
  Claim C9. After \<open>config c\<close> the three credentials are exactly the three fields of \<open>c\<close>,
  whatever they were before: a field that \<open>c\<close> lacks becomes absent, none keeps its previous
  value. The record of transport calls is untouched.
\<close>

theorem config_replaces_credentials:
  "IMGBB_KEY (config c s) = cfg_key c \<and> IMGBB_COOKIE (config c s) = cfg_cookie c \<and>
   IMGBB_USERNAME (config c s) = cfg_username c \<and> calls (config c s) = calls s"
  by (simp add: config_def)

text \<open>
  Claim C3. When one of the key, the cookie and the user name is absent or empty,
  \<open>apiRequest\<close>, \<open>uploadImage\<close> and \<open>removeImages\<close> (with any argument, the empty array
  too) fail with the configuration error, which the module throws as an \<^verbatim>\<open>Error\<close> with a
  fixed message, and leave the state as it was: the transport has been invoked zero times.
\<close>

theorem missing_credentials_fail_before_transport:
  assumes "falsy (IMGBB_KEY s) \<or> falsy (IMGBB_COOKIE s) \<or> falsy (IMGBB_USERNAME s)"
  shows "apiRequest e ao s =
           (Inl (Error ''ImgBB credentials not configured, please use config()''), s)
       \<and> uploadImage e uo s =
           (Inl (Error ''ImgBB credentials not configured, please use config()''), s)
       \<and> removeImages e ia s =
           (Inl (Error ''ImgBB credentials not configured, please use config()''), s)"
  using ensureCreds_fails [OF assms]
  by (simp add: apiRequest_def uploadImage_def removeImages_def)

theorem missing_credentials_fail_before_transport_witness:
  "falsy (IMGBB_KEY keyless_state)
   \<and> apiRequest (transport_env bad_token_response) plain_options keyless_state =
       (Inl (Error ''ImgBB credentials not configured, please use config()''), keyless_state)
   \<and> uploadImage (transport_env bad_token_response) (upload_with Absent) keyless_state =
       (Inl (Error ''ImgBB credentials not configured, please use config()''), keyless_state)
   \<and> removeImages (transport_env bad_token_response) (IdList []) keyless_state =
       (Inl (Error ''ImgBB credentials not configured, please use config()''), keyless_state)
   \<and> calls keyless_state = []"
proof -
  have k: "falsy (IMGBB_KEY keyless_state)"
    by (simp add: keyless_state_def falsy_def)
  then have "falsy (IMGBB_KEY keyless_state) \<or> falsy (IMGBB_COOKIE keyless_state)
      \<or> falsy (IMGBB_USERNAME keyless_state)"
    by simp
  from missing_credentials_fail_before_transport [OF this] k show ?thesis
    by (simp add: keyless_state_def)
qed

subsection \<open>Deleting\<close>

text \<open>
  After \<^verbatim>\<open>set(n, v)\<close> the form has one entry named \<open>n\<close>; so the loop of \<open>removeImages\<close>
  leaves one \<^verbatim>\<open>deleting[ids][]\<close> entry, the last identifier of the array.
\<close>

lemma fd_getAll_set: "fd_getAll n (fd_set n v es) = [v]"
proof (induction es)
  case Nil
  show ?case by (simp add: fd_getAll_def)
next
  case (Cons entry es)
  obtain k w where entry: "entry = (k, w)"
    by (cases entry)
  have "filter (\<lambda>x. fst x = n) (filter (\<lambda>x. fst x \<noteq> n) es) = []"
    by (simp add: filter_empty_conv)
  with Cons show ?case
    by (simp add: entry fd_getAll_def)
qed

lemma delete_body_list_ids:
  assumes "ids \<noteq> []"
  shows "fd_getAll ''deleting[ids][]'' (delete_body (IdList ids) s) = [FString (last ids)]"
proof -
  have "fd_getAll n (foldl (\<lambda>b i. fd_set n (FString i) b) b0 xs) = [FString (last xs)]"
    if "xs \<noteq> []" for n xs and b0 :: "'a formdata"
    using that by (induction xs rule: rev_induct) (simp_all add: fd_getAll_set)
  from this [OF assms] show ?thesis
    by (simp add: delete_body_def Let_def)
qed

text \<open>
  Claim C4. With all three credentials configured, \<open>removeImages\<close> of the empty array
  returns \<^verbatim>\<open>undefined\<close> and leaves the state as it was: no body reaches the transport, which
  is not invoked.
\<close>

theorem removeImages_empty_list_no_call:
  assumes "\<not> falsy (IMGBB_KEY s)" "\<not> falsy (IMGBB_COOKIE s)" "\<not> falsy (IMGBB_USERNAME s)"
  shows "removeImages e (IdList []) s = (Inr None, s)"
  using ensureCreds_ok [OF assms] by (simp add: removeImages_def)

theorem removeImages_empty_list_no_call_witness:
  "removeImages (transport_env bad_token_response) (IdList []) configured_state =
     (Inr None, configured_state) \<and> calls configured_state = []"
  using removeImages_empty_list_no_call [of configured_state "transport_env bad_token_response"]
  by (simp add: configured_state_def falsy_def)

text \<open>
  Claim C10. With all three credentials configured, \<open>removeImages\<close> of the empty string
  returns \<^verbatim>\<open>undefined\<close> and leaves the state as it was: the test of the length comes before
  the test of the type, so the branch for a single identifier is not reached.
\<close>

theorem removeImages_empty_string_no_call:
  assumes "\<not> falsy (IMGBB_KEY s)" "\<not> falsy (IMGBB_COOKIE s)" "\<not> falsy (IMGBB_USERNAME s)"
  shows "removeImages e (IdStr []) s = (Inr None, s)"
  using ensureCreds_ok [OF assms] by (simp add: removeImages_def)

theorem removeImages_empty_string_no_call_witness:
  "removeImages (transport_env bad_token_response) (IdStr '''') configured_state =
     (Inr None, configured_state) \<and> calls configured_state = []"
  using removeImages_empty_string_no_call [of configured_state "transport_env bad_token_response"]
  by (simp add: configured_state_def falsy_def)

text \<open>
  Claim C1. The claim asks for one \<^verbatim>\<open>deleting[ids][]\<close> entry per identifier. The loop calls
  \<^verbatim>\<open>set\<close>, which replaces the entry of that name, so for the array of \<^verbatim>\<open>a\<close> and \<^verbatim>\<open>b\<close> the
  one request that is sent carries a single \<^verbatim>\<open>deleting[ids][]\<close> entry, \<^verbatim>\<open>b\<close>.
\<close>

theorem removeImages_list_keeps_last_identifier:
  "map req_body (calls (snd (removeImages e (IdList [''a'', ''b'']) configured_state))) =
     [[(''action'', FString ''delete''), (''auth_token'', FString ''k3y''),
       (''from'', FString ''list''), (''multiple'', FString ''true''),
       (''delete'', FString ''images''), (''deleting[ids][]'', FString ''b'')]]"
proof -
  have c: "ensureCreds configured_state = Inr ()"
    by (simp add: ensureCreds_def configured_state_def falsy_def)
  have "delete_body (IdList [''a'', ''b'']) configured_state =
     [(''action'', FString ''delete''), (''auth_token'', FString ''k3y''),
       (''from'', FString ''list''), (''multiple'', FString ''true''),
       (''delete'', FString ''images''), (''deleting[ids][]'', FString ''b'')]"
    by (simp add: delete_body_def configured_state_def to_str_def)
  with removeImages_state [OF c, of "IdList [''a'', ''b'']" e] show ?thesis
    by (simp add: request_of_def delete_options_def configured_state_def)
qed

subsection \<open>Extracting an identifier\<close>

text \<open>
  Claim C6. The identifier of \<^verbatim>\<open>https://i.ibb.co/XYZ789/pic.png\<close> is \<^verbatim>\<open>XYZ789\<close>; the
  address \<^verbatim>\<open>https://example.com/pic.png\<close> and an object whose \<^verbatim>\<open>image\<close> is \<^verbatim>\<open>undefined\<close> give
  \<^verbatim>\<open>null\<close>.
\<close>

theorem getImageIdByUrl_examples:
  "getImageIdByUrl (Url ''https://i.ibb.co/XYZ789/pic.png'') = Some ''XYZ789''
   \<and> getImageIdByUrl (Url ''https://example.com/pic.png'') = None
   \<and> getImageIdByUrl (User None) = None"
  by (simp add: regex_defs)

text \<open>
  Claim C5. The claim lets an identifier be returned only for the host \<^verbatim>\<open>i.ibb.co\<close>. The two
  dots of the expression are not escaped, so each matches any character: the address
  \<^verbatim>\<open>https://iXibbYco/abc/\<close>, whose host is another one, gives the identifier \<^verbatim>\<open>abc\<close>.
\<close>

theorem getImageIdByUrl_accepts_other_host:
  "getImageIdByUrl (Url ''https://iXibbYco/abc/'') = Some ''abc''"
  by (simp add: regex_defs)

subsection \<open>The requests of the two operations\<close>

lemma upload_body_expiration:
  "fd_getAll ''expiration'' (upload_body e opts s) =
     [FString (to_str (or_else (map_option expiration_value
                 (overlay (Some SixMonths) (iu_expiration opts))) (Some '''')))]"
  by (simp add: upload_body_def Let_def fd_getAll_def)

lemma request_of_delete:
  "IMGBB_USERNAME s = Some u \<Longrightarrow> u \<noteq> [] \<Longrightarrow>
   req_url (request_of (delete_options ia s) s) = ''https://'' @ u @ ''.imgbb.com/json''
   \<and> req_origin (request_of (delete_options ia s) s) = ''https://'' @ u @ ''.imgbb.com''"
  by (simp add: request_of_def delete_options_def origin_of_def or_else_def falsy_def to_str_def
      host_def endpoint_def)

lemma request_of_upload:
  "IMGBB_USERNAME s = Some u \<Longrightarrow> u \<noteq> [] \<Longrightarrow>
   req_url (request_of (upload_options e opts s) s) = ''https://imgbb.com/json''
   \<and> req_origin (request_of (upload_options e opts s) s) = ''https://'' @ u @ ''.imgbb.com''"
  by (simp add: request_of_def upload_options_def origin_of_def or_else_def falsy_def to_str_def
      host_def endpoint_def website_def)

lemma error_message_cases:
  "error_message e r d =
     ''response status '' @ decimal (resp_status r) @ '': '' @
       (case opt_chain (opt_chain (Some d) ''error'') ''message'' of
          Some (JStr m) \<Rightarrow> if m = [] then ''no error message provided'' else m
        | Some v \<Rightarrow> if truthy (Some v) then toString e v else ''no error message provided''
        | None \<Rightarrow> ''no error message provided'')"
  by (simp add: error_message_def Let_def split: option.splits json.splits)

text \<open>
  Claim C7. With the credentials configured, \<open>uploadImage\<close> sends one request, and its
  \<^verbatim>\<open>expiration\<close> field is \<^verbatim>\<open>P6M\<close> when the options have no \<^verbatim>\<open>expiration\<close> key, the empty
  string when it is \<^verbatim>\<open>Never\<close>, and \<^verbatim>\<open>PT1H\<close>, the value of \<^verbatim>\<open>OneHour\<close>, when it is that.
\<close>

theorem uploadImage_expiration_field:
  assumes "\<not> falsy (IMGBB_KEY s)" "\<not> falsy (IMGBB_COOKIE s)" "\<not> falsy (IMGBB_USERNAME s)"
  shows "\<exists>req. calls (snd (uploadImage e opts s)) = calls s @ [req]
     \<and> (iu_expiration opts = Absent \<longrightarrow>
          fd_getAll ''expiration'' (req_body req) = [FString ''P6M''])
     \<and> (iu_expiration opts = Present (Some Never) \<longrightarrow>
          fd_getAll ''expiration'' (req_body req) = [FString ''''])
     \<and> (iu_expiration opts = Present (Some OneHour) \<longrightarrow>
          fd_getAll ''expiration'' (req_body req) = [FString ''PT1H''])
     \<and> expiration_value OneHour = ''PT1H''"
proof -
  let ?req = "request_of (upload_options e opts s) s"
  have sent: "calls (snd (uploadImage e opts s)) = calls s @ [?req]"
    using uploadImage_state [OF ensureCreds_ok [OF assms]] by simp
  have body: "req_body ?req = upload_body e opts s"
    by (simp add: request_of_def upload_options_def)
  have "iu_expiration opts = Absent \<longrightarrow>
          fd_getAll ''expiration'' (req_body ?req) = [FString ''P6M'']"
    by (simp add: body upload_body_expiration or_else_def falsy_def to_str_def)
  moreover have "iu_expiration opts = Present (Some Never) \<longrightarrow>
          fd_getAll ''expiration'' (req_body ?req) = [FString '''']"
    by (simp add: body upload_body_expiration or_else_def falsy_def to_str_def)
  moreover have "iu_expiration opts = Present (Some OneHour) \<longrightarrow>
          fd_getAll ''expiration'' (req_body ?req) = [FString ''PT1H'']"
    by (simp add: body upload_body_expiration or_else_def falsy_def to_str_def)
  ultimately show ?thesis
    using sent by simp
qed

theorem uploadImage_expiration_field_witness:
  "(\<exists>req. calls (snd (uploadImage (transport_env bad_token_response) (upload_with Absent)
              configured_state)) = [req]
          \<and> fd_getAll ''expiration'' (req_body req) = [FString ''P6M''])
   \<and> (\<exists>req. calls (snd (uploadImage (transport_env bad_token_response)
              (upload_with (Present (Some Never))) configured_state)) = [req]
          \<and> fd_getAll ''expiration'' (req_body req) = [FString ''''])
   \<and> (\<exists>req. calls (snd (uploadImage (transport_env bad_token_response)
              (upload_with (Present (Some OneHour))) configured_state)) = [req]
          \<and> fd_getAll ''expiration'' (req_body req) = [FString ''PT1H''])"
proof -
  have c: "\<not> falsy (IMGBB_KEY configured_state)" "\<not> falsy (IMGBB_COOKIE configured_state)"
    "\<not> falsy (IMGBB_USERNAME configured_state)"
    by (simp_all add: configured_state_def falsy_def)
  have n: "calls configured_state = []"
    by (simp add: configured_state_def)
  show ?thesis
    using uploadImage_expiration_field [OF c, of "transport_env bad_token_response" "upload_with Absent"]
      uploadImage_expiration_field [OF c, of "transport_env bad_token_response"
        "upload_with (Present (Some Never))"]
      uploadImage_expiration_field [OF c, of "transport_env bad_token_response"
        "upload_with (Present (Some OneHour))"]
    by (simp add: n upload_with_def)
qed

text \<open>
  Claim C8. \<open>removeImages\<close> passes \<^verbatim>\<open>endpointUseOrigin: true\<close>, and the request it sends goes
  to the origin of the user's subdomain followed by \<^verbatim>\<open>/json\<close>; \<open>uploadImage\<close> passes no
  origin, endpoint or \<^verbatim>\<open>endpointUseOrigin\<close>, and its request goes to \<^verbatim>\<open>https://imgbb.com/json\<close>.
  The \<^verbatim>\<open>origin\<close> header of both is the origin of the user's subdomain.
\<close>

theorem delete_uses_user_origin_upload_default_host:
  assumes "\<not> falsy (IMGBB_KEY s)" "\<not> falsy (IMGBB_COOKIE s)"
    and "IMGBB_USERNAME s = Some u" "u \<noteq> []" and "id_length ia \<noteq> 0"
  shows "ao_endpointUseOrigin (delete_options ia s) = Some True
     \<and> (\<exists>req. calls (snd (removeImages e ia s)) = calls s @ [req]
           \<and> req_url req = ''https://'' @ u @ ''.imgbb.com/json''
           \<and> req_origin req = ''https://'' @ u @ ''.imgbb.com'')
     \<and> ao_origin (upload_options e opts s) = None
     \<and> ao_endpoint (upload_options e opts s) = None
     \<and> ao_endpointUseOrigin (upload_options e opts s) = None
     \<and> (\<exists>req. calls (snd (uploadImage e opts s)) = calls s @ [req]
           \<and> req_url req = ''https://imgbb.com/json''
           \<and> req_origin req = ''https://'' @ u @ ''.imgbb.com'')"
proof -
  have "\<not> falsy (IMGBB_USERNAME s)"
    using assms(3,4) by (simp add: falsy_def)
  with assms(1,2) have c: "ensureCreds s = Inr ()"
    by (rule ensureCreds_ok)
  have "calls (snd (removeImages e ia s)) = calls s @ [request_of (delete_options ia s) s]"
    using removeImages_state [OF c assms(5)] by simp
  then have d: "\<exists>req. calls (snd (removeImages e ia s)) = calls s @ [req]
           \<and> req_url req = ''https://'' @ u @ ''.imgbb.com/json''
           \<and> req_origin req = ''https://'' @ u @ ''.imgbb.com''"
    using request_of_delete [OF assms(3,4)] by simp
  have "calls (snd (uploadImage e opts s)) = calls s @ [request_of (upload_options e opts s) s]"
    using uploadImage_state [OF c] by simp
  then have u: "\<exists>req. calls (snd (uploadImage e opts s)) = calls s @ [req]
           \<and> req_url req = ''https://imgbb.com/json''
           \<and> req_origin req = ''https://'' @ u @ ''.imgbb.com''"
    using request_of_upload [OF assms(3,4)] by simp
  show ?thesis
    using d u by (simp add: delete_options_def upload_options_def)
qed

theorem delete_uses_user_origin_upload_default_host_witness:
  "(\<exists>req. calls (snd (removeImages (transport_env bad_token_response) (IdStr ''abc123'')
              configured_state)) = [req]
          \<and> req_url req = ''https://bob.imgbb.com/json''
          \<and> req_origin req = ''https://bob.imgbb.com'')
   \<and> (\<exists>req. calls (snd (uploadImage (transport_env bad_token_response) (upload_with Absent)
              configured_state)) = [req]
          \<and> req_url req = ''https://imgbb.com/json''
          \<and> req_origin req = ''https://bob.imgbb.com'')"
  using delete_uses_user_origin_upload_default_host [of configured_state "''bob''"
      "IdStr ''abc123''" "transport_env bad_token_response" "upload_with Absent"]
  by (simp add: configured_state_def falsy_def)

subsection \<open>Responses that are not ok\<close>

text \<open>
  Claim C2, amended. With the credentials configured, when the transport answers the request
  of \<open>apiRequest\<close>, of \<open>uploadImage\<close> or of \<open>removeImages\<close> (of a non-empty argument) with a
  response whose status is outside 200 to 299, the operation fails. When the body parses as
  JSON the error is an \<^verbatim>\<open>Error\<close> whose message holds the status and then the vendor's
  \<^verbatim>\<open>error.message\<close>, or the placeholder when the parsed body has no such field or the field is
  falsy. When the body is missing or is not JSON, the \<^verbatim>\<open>SyntaxError\<close> of \<^verbatim>\<open>resp.json()\<close> is
  what the operation fails with.
\<close>

theorem failed_response_error:
  assumes "\<not> falsy (IMGBB_KEY s)" "\<not> falsy (IMGBB_COOKIE s)" "\<not> falsy (IMGBB_USERNAME s)"
    and "\<not> ok r"
  shows "let failure =
           (case resp_json r of
              None \<Rightarrow> SyntaxError
            | Some d \<Rightarrow>
                Error (''response status '' @ decimal (resp_status r) @ '': '' @
                  (case opt_chain (opt_chain (Some d) ''error'') ''message'' of
                     Some (JStr m) \<Rightarrow> if m = [] then ''no error message provided'' else m
                   | Some v \<Rightarrow>
                       if truthy (Some v) then toString e v else ''no error message provided''
                   | None \<Rightarrow> ''no error message provided'')))
         in (fetch e (request_of ao s) = Inr r \<longrightarrow> fst (apiRequest e ao s) = Inl failure)
          \<and> (fetch e (request_of (upload_options e uo s) s) = Inr r \<longrightarrow>
               fst (uploadImage e uo s) = Inl failure)
          \<and> (id_length ia \<noteq> 0 \<and> fetch e (request_of (delete_options ia s) s) = Inr r \<longrightarrow>
               fst (removeImages e ia s) = Inl failure)"
proof -
  have c: "ensureCreds s = Inr ()"
    using assms(1-3) by (rule ensureCreds_ok)
  have api: "fst (apiRequest e x s) =
       Inl (case resp_json r of None \<Rightarrow> SyntaxError | Some d \<Rightarrow> Error (error_message e r d))"
    if "fetch e (request_of x s) = Inr r" for x
    using that assms(4) by (simp add: apiRequest_value [OF c] split: option.splits)
  have up: "fst (uploadImage e uo s) =
       Inl (case resp_json r of None \<Rightarrow> SyntaxError | Some d \<Rightarrow> Error (error_message e r d))"
    if "fetch e (request_of (upload_options e uo s) s) = Inr r"
    using uploadImage_error [OF c api [OF that]] .
  have del: "fst (removeImages e ia s) =
       Inl (case resp_json r of None \<Rightarrow> SyntaxError | Some d \<Rightarrow> Error (error_message e r d))"
    if "id_length ia \<noteq> 0" "fetch e (request_of (delete_options ia s) s) = Inr r"
    using removeImages_error [OF c that(1) api [OF that(2)]] .
  show ?thesis
    unfolding Let_def error_message_cases [symmetric]
    using api up del by blast
qed

theorem failed_response_error_witness:
  "fst (apiRequest (transport_env bad_token_response) plain_options configured_state) =
     Inl (Error ''response status 400: bad token'')
   \<and> fst (uploadImage (transport_env bad_token_response) (upload_with Absent) configured_state) =
     Inl (Error ''response status 400: bad token'')
   \<and> fst (removeImages (transport_env bad_token_response) (IdStr ''abc123'') configured_state) =
     Inl (Error ''response status 400: bad token'')"
proof -
  have c: "\<not> falsy (IMGBB_KEY configured_state)" "\<not> falsy (IMGBB_COOKIE configured_state)"
    "\<not> falsy (IMGBB_USERNAME configured_state)"
    by (simp_all add: configured_state_def falsy_def)
  have n: "\<not> ok bad_token_response"
    by (simp add: ok_def bad_token_response_def)
  have d: "decimal 400 = ''400''"
    by (simp add: decimal.simps digit_def)
  show ?thesis
    using failed_response_error [OF c n, of "transport_env bad_token_response" plain_options
        "upload_with Absent" "IdStr ''abc123''"]
    by (simp add: Let_def transport_env_def bad_token_response_def d)
qed

text \<open>
  The claim C2 as it was stated fails for a body that is not JSON: the error is the
  \<^verbatim>\<open>SyntaxError\<close>, not an \<^verbatim>\<open>Error\<close> with the placeholder.
\<close>

theorem unparseable_error_body_counterexample:
  "\<not> ok not_json_response
   \<and> fst (apiRequest (transport_env not_json_response) plain_options configured_state) =
       Inl SyntaxError
   \<and> fst (apiRequest (transport_env not_json_response) plain_options configured_state) \<noteq>
       Inl (Error ''response status 400: no error message provided'')"
  by (simp add: apiRequest_def ensureCreds_def falsy_def configured_state_def transport_env_def
      not_json_response_def ok_def Let_def)

end
